theory Spec2Isabelle
  imports Complex_Main "HOL-Library.AList"
begin

section \<open>JavaScript values and built-in operations\<close>

text \<open>
  The library application is written in JavaScript. Its items are flat objects whose
  properties hold primitive values, so a property value is one of \<open>undefined\<close>,
  \<open>null\<close>, a boolean, a number or a string, and an object is a property list.
  Numbers are the finite values (each finite double is a rational), the two infinities
  and \<open>NaN\<close>. Conversions from text return the exact decimal value; the rounding of
  a decimal literal to the nearest double is outside this model. Strings are lists of
  code units below 256; white space and letter case are those of that range.
\<close>

datatype number = Fin rat | PosInf | NegInf | NaN

datatype prim = Undefined | Null | Bool bool | Number number | Str string

type_synonym obj = "(string \<times> prim) list"

definition property :: "obj \<Rightarrow> string \<Rightarrow> prim" where
  \<comment> \<open>\<open>o.k\<close>: the value of an own property, \<open>undefined\<close> when there is none.\<close>
  "property ob k = (case map_of ob k of None \<Rightarrow> Undefined | Some v \<Rightarrow> v)"

fun ToBoolean :: "prim \<Rightarrow> bool" where
  "ToBoolean Undefined = False"
| "ToBoolean Null = False"
| "ToBoolean (Bool b) = b"
| "ToBoolean (Number n) = (case n of Fin x \<Rightarrow> x \<noteq> 0 | PosInf \<Rightarrow> True | NegInf \<Rightarrow> True | NaN \<Rightarrow> False)"
| "ToBoolean (Str s) = (s \<noteq> [])"

fun strict_eq :: "prim \<Rightarrow> prim \<Rightarrow> bool" where
  \<comment> \<open>\<open>a === b\<close> on primitives: same type and same value, \<open>NaN\<close> equal to nothing.\<close>
  "strict_eq Undefined b = (b = Undefined)"
| "strict_eq Null b = (b = Null)"
| "strict_eq (Bool x) b = (b = Bool x)"
| "strict_eq (Number n) b = (n \<noteq> NaN \<and> b = Number n)"
| "strict_eq (Str s) b = (b = Str s)"

fun number_lt :: "number \<Rightarrow> number \<Rightarrow> bool" where
  \<comment> \<open>\<open>a < b\<close> on numbers; every comparison with \<open>NaN\<close> is false.\<close>
  "number_lt (Fin a) (Fin b) = (a < b)"
| "number_lt (Fin a) PosInf = True"
| "number_lt NegInf (Fin b) = True"
| "number_lt NegInf PosInf = True"
| "number_lt a b = False"

subsection \<open>Strings\<close>

definition is_ws :: "char \<Rightarrow> bool" where
  \<comment> \<open>White space and line terminators among the code units below 256.\<close>
  "is_ws c = (c \<in> {CHR 0x09, CHR 0x0A, CHR 0x0B, CHR 0x0C, CHR 0x0D, CHR 0x20, CHR 0xA0})"

definition trim :: "string \<Rightarrow> string" where
  "trim s = rev (dropWhile is_ws (rev (dropWhile is_ws s)))"

definition lower_char :: "char \<Rightarrow> char" where
  "lower_char c =
     (let n = (of_char c :: nat)
      in if (65 \<le> n \<and> n \<le> 90) \<or> (192 \<le> n \<and> n \<le> 222 \<and> n \<noteq> 215)
         then char_of (n + 32) else c)"

definition toLowerCase :: "string \<Rightarrow> string" where
  "toLowerCase s = map lower_char s"

definition startsWith :: "string \<Rightarrow> string \<Rightarrow> bool" where
  "startsWith s t = (take (length t) s = t)"

fun includes_str :: "string \<Rightarrow> string \<Rightarrow> bool" where
  \<comment> \<open>\<open>s.includes(t)\<close>: \<open>t\<close> occurs in \<open>s\<close> as a contiguous run.\<close>
  "includes_str [] t = (t = [])"
| "includes_str (c # cs) t = (startsWith (c # cs) t \<or> includes_str cs t)"

subsection \<open>Numbers from text\<close>

definition digit_val :: "char \<Rightarrow> nat option" where
  \<comment> \<open>The value of a digit or letter as a digit of some radix up to 36.\<close>
  "digit_val c =
     (let n = (of_char c :: nat)
      in if 48 \<le> n \<and> n \<le> 57 then Some (n - 48)
         else if 97 \<le> n \<and> n \<le> 122 then Some (n - 87)
         else if 65 \<le> n \<and> n \<le> 90 then Some (n - 55)
         else None)"

definition is_digit :: "nat \<Rightarrow> char \<Rightarrow> bool" where
  "is_digit radix c = (case digit_val c of None \<Rightarrow> False | Some d \<Rightarrow> d < radix)"

definition digits_val :: "nat \<Rightarrow> string \<Rightarrow> nat" where
  \<comment> \<open>The number written by a run of digits in the given radix.\<close>
  "digits_val radix ds = foldl (\<lambda>acc c. acc * radix + the (digit_val c)) 0 ds"

definition parseInt_str :: "string \<Rightarrow> number" where
  \<comment> \<open>\<open>parseInt(s)\<close> for a string and no radix argument: leading white space, a sign,
      an optional \<open>0x\<close> prefix, then the longest run of digits.\<close>
  "parseInt_str s =
     (let s1 = dropWhile is_ws s;
          neg = startsWith s1 ''-'';
          s2 = (if startsWith s1 ''-'' \<or> startsWith s1 ''+'' then tl s1 else s1);
          hex = (startsWith s2 ''0x'' \<or> startsWith s2 ''0X'');
          radix = (if hex then 16 else 10);
          s3 = (if hex then drop 2 s2 else s2);
          ds = takeWhile (is_digit radix) s3
      in if ds = [] then NaN
         else Fin (of_int ((if neg then - 1 else 1) * int (digits_val radix ds))))"

fun lead_digit :: "nat \<Rightarrow> nat" where
  "lead_digit n = (if n < 10 then n else lead_digit (n div 10))"

fun num_digits :: "nat \<Rightarrow> nat" where
  "num_digits n = (if n < 10 then 1 else Suc (num_digits (n div 10)))"

definition parseInt_num :: "number \<Rightarrow> number" where
  \<comment> \<open>\<open>parseInt(x)\<close> for a number: the number is printed first. Between \<open>1e-6\<close> and
      \<open>1e21\<close> it is printed in positional notation, and the digits before the point are
      read back; outside it is printed as \<open>d.ddde\<plusminus>n\<close> and only the leading digit is
      read back, here the leading digit of the exact value. \<open>NaN\<close> and the infinities
      print as words.\<close>
  "parseInt_num n =
     (case n of
        Fin x \<Rightarrow>
          (let a = \<bar>x\<bar>; sg = (if x < 0 then - 1 else 1 :: int)
           in if x = 0 then Fin 0
              else if 1 / 10 ^ 6 \<le> a \<and> a < 10 ^ 21 then Fin (of_int (sg * \<lfloor>a\<rfloor>))
              else Fin (of_int (sg * int (lead_digit (nat \<lfloor>a * 10 ^ num_digits (nat \<lceil>1 / a\<rceil>)\<rfloor>)))))
      | PosInf \<Rightarrow> NaN
      | NegInf \<Rightarrow> NaN
      | NaN \<Rightarrow> NaN)"

fun parseInt :: "prim \<Rightarrow> number" where
  \<comment> \<open>\<open>parseInt(v)\<close>: the argument is converted to a string first.\<close>
  "parseInt (Str s) = parseInt_str s"
| "parseInt (Number n) = parseInt_num n"
| "parseInt Undefined = NaN"
| "parseInt Null = NaN"
| "parseInt (Bool b) = NaN"

definition all_digits :: "string \<Rightarrow> bool" where
  "all_digits ds = (ds \<noteq> [] \<and> list_all (is_digit 10) ds)"

definition pow10 :: "int \<Rightarrow> rat" where
  "pow10 e = (if 0 \<le> e then 10 ^ nat e else 1 / 10 ^ nat (- e))"

definition StrUnsignedDecimalLiteral :: "string \<Rightarrow> number" where
  \<comment> \<open>\<open>Infinity\<close>, or digits with an optional fraction and an optional exponent;
      at least one digit before or after the point.\<close>
  "StrUnsignedDecimalLiteral s =
     (if s = ''Infinity'' then PosInf
      else
        let ip = takeWhile (is_digit 10) s;
            r1 = dropWhile (is_digit 10) s;
            dot = startsWith r1 ''.'';
            fp = (if dot then takeWhile (is_digit 10) (tl r1) else []);
            r2 = (if dot then dropWhile (is_digit 10) (tl r1) else r1);
            ex = (startsWith r2 ''e'' \<or> startsWith r2 ''E'');
            r3 = (if ex then tl r2 else r2);
            eneg = startsWith r3 ''-'';
            ed = (if startsWith r3 ''-'' \<or> startsWith r3 ''+'' then tl r3 else r3);
            mant = of_nat (digits_val 10 (ip @ fp)) / 10 ^ length fp
        in if ip = [] \<and> fp = [] then NaN
           else if r2 = [] then Fin mant
           else if ex \<and> all_digits ed
             then Fin (mant * pow10 ((if eneg then - 1 else 1) * int (digits_val 10 ed)))
           else NaN)"

definition StringToNumber :: "string \<Rightarrow> number" where
  \<comment> \<open>The conversion of a string to a number: surrounding white space is dropped, the
      empty string is 0, then a binary, octal or hexadecimal integer without sign or a
      signed decimal literal; anything else is \<open>NaN\<close>.\<close>
  "StringToNumber s0 =
     (let s = trim s0;
          body = drop 2 s
      in if s = [] then Fin 0
         else if startsWith s ''0x'' \<or> startsWith s ''0X''
           then (if body \<noteq> [] \<and> list_all (is_digit 16) body then Fin (of_nat (digits_val 16 body)) else NaN)
         else if startsWith s ''0o'' \<or> startsWith s ''0O''
           then (if body \<noteq> [] \<and> list_all (is_digit 8) body then Fin (of_nat (digits_val 8 body)) else NaN)
         else if startsWith s ''0b'' \<or> startsWith s ''0B''
           then (if body \<noteq> [] \<and> list_all (is_digit 2) body then Fin (of_nat (digits_val 2 body)) else NaN)
         else if startsWith s ''-''
           then (case StrUnsignedDecimalLiteral (tl s) of
                   Fin x \<Rightarrow> Fin (- x) | PosInf \<Rightarrow> NegInf | NegInf \<Rightarrow> NaN | NaN \<Rightarrow> NaN)
         else if startsWith s ''+'' then StrUnsignedDecimalLiteral (tl s)
         else StrUnsignedDecimalLiteral s)"

fun ToNumber :: "prim \<Rightarrow> number" where
  "ToNumber Undefined = NaN"
| "ToNumber Null = Fin 0"
| "ToNumber (Bool b) = (if b then Fin 1 else Fin 0)"
| "ToNumber (Number n) = n"
| "ToNumber (Str s) = StringToNumber s"

definition js_lt :: "prim \<Rightarrow> number \<Rightarrow> bool" where
  \<comment> \<open>\<open>v < n\<close> with a number on the right: the left operand is converted to a number.\<close>
  "js_lt v n = number_lt (ToNumber v) n"

section \<open>The session state\<close>

text \<open>
  \<open>script.js\<close> keeps the collection and the filter configuration in global variables.
  The model passes them in a record: \<open>libraryItems\<close> (the in-memory collection),
  \<open>activeFilters\<close>, \<open>currentUser\<close> (\<open>None\<close> for \<open>null\<close>), \<open>supabase\<close> (whether a
  client exists), \<open>savedLibrary\<close> (what \<open>localStorage\<close> holds under
  \<open>digitalLibrary\<close>), \<open>displayed\<close> (the list last handed to the renderer of the
  current view) and the notifications shown so far.
\<close>

datatype notification =
    Showing nat nat       \<comment> \<open>\<open>Showing n of m items\<close>, info\<close>
  | ItemNotFound          \<comment> \<open>\<open>Error: Item not found.\<close>, error\<close>
  | ErrorDeleting string  \<comment> \<open>\<open>Error deleting item: \<close> and the error's message, error\<close>
  | HasBeenDeleted prim   \<comment> \<open>the deleted item's title and \<open>has been deleted.\<close>, info\<close>

record session =
  libraryItems :: "obj list"
  activeFilters :: obj
  currentUser :: "obj option"
  supabase :: bool
  savedLibrary :: "obj list option"
  displayed :: "obj list"
  notifications :: "notification list"

definition showNotification :: "notification \<Rightarrow> session \<Rightarrow> session" where
  "showNotification n st = st\<lparr>notifications := notifications st @ [n]\<rparr>"

definition updateLibraryDisplay :: "session \<Rightarrow> session" where
  "updateLibraryDisplay st = st\<lparr>displayed := libraryItems st\<rparr>"

section \<open>Structured filters\<close>

definition initialFilters :: obj where
  \<comment> \<open>The value \<open>activeFilters\<close> starts with and is reset to.\<close>
  "initialFilters =
     [(''type'', Str ''all''), (''status'', Str ''all''), (''rating'', Str ''all''),
      (''difficulty'', Str ''all''), (''language'', Str ''all''), (''category'', Str ''all'')]"

definition setFilter :: "string \<Rightarrow> string \<Rightarrow> obj \<Rightarrow> obj" where
  \<comment> \<open>\<open>activeFilters[filterType] = filterValue\<close>, both read from attributes of the
      clicked option.\<close>
  "setFilter filterType filterValue af = AList.update filterType (Str filterValue) af"

definition keeps :: "obj \<Rightarrow> obj \<Rightarrow> bool" where
  \<comment> \<open>The callback that \<open>applyFilters\<close> gives to \<open>libraryItems.filter\<close>.\<close>
  "keeps af item =
     (if \<not> strict_eq (property af ''type'') (Str ''all'')
          \<and> \<not> strict_eq (property item ''type'') (property af ''type'') then False
      else if \<not> strict_eq (property af ''status'') (Str ''all'')
          \<and> \<not> strict_eq (property item ''status'') (property af ''status'') then False
      else if \<not> strict_eq (property af ''rating'') (Str ''all'')
          \<and> (let ratingThreshold = parseInt (property af ''rating'')
             in \<not> ToBoolean (property item ''rating'')
                \<or> js_lt (property item ''rating'') ratingThreshold) then False
      else if \<not> strict_eq (property af ''difficulty'') (Str ''all'')
          \<and> (\<not> ToBoolean (property item ''difficulty'')
             \<or> (let difficulty = parseInt (property item ''difficulty'')
                in (strict_eq (property af ''difficulty'') (Str ''easy'')
                      \<and> (number_lt difficulty (Fin 1) \<or> number_lt (Fin 3) difficulty))
                 \<or> (strict_eq (property af ''difficulty'') (Str ''medium'')
                      \<and> (number_lt difficulty (Fin 4) \<or> number_lt (Fin 7) difficulty))
                 \<or> (strict_eq (property af ''difficulty'') (Str ''hard'')
                      \<and> (number_lt difficulty (Fin 8) \<or> number_lt (Fin 10) difficulty)))) then False
      else if \<not> strict_eq (property af ''language'') (Str ''all'')
          \<and> \<not> strict_eq (property item ''language'') (property af ''language'') then False
      else if \<not> strict_eq (property af ''category'') (Str ''all'')
          \<and> \<not> strict_eq (property item ''category'') (property af ''category'') then False
      else True)"

definition filteredItems :: "session \<Rightarrow> obj list" where
  "filteredItems st = filter (keeps (activeFilters st)) (libraryItems st)"

definition applyFilters :: "session \<Rightarrow> session" where
  \<comment> \<open>The filtered list goes to the renderer of the current view; a notification follows
      when some filter is not \<open>all\<close>.\<close>
  "applyFilters st =
     (let st1 = st\<lparr>displayed := filteredItems st\<rparr>;
          activeFilterCount =
            length (filter (\<lambda>v. \<not> strict_eq v (Str ''all'')) (map snd (activeFilters st)))
      in if activeFilterCount > 0
         then showNotification (Showing (length (filteredItems st)) (length (libraryItems st))) st1
         else st1)"



section \<open>Free-text search\<close>

datatype error = TypeError

definition lower_includes :: "prim \<Rightarrow> string \<Rightarrow> error + bool" where
  \<comment> \<open>\<open>v.toLowerCase().includes(t)\<close>: only a string has the method; on \<open>undefined\<close>
      and \<open>null\<close> the property access raises, on a number or boolean the call does.\<close>
  "lower_includes v t =
     (case v of Str s \<Rightarrow> Inr (includes_str (toLowerCase s) t) | _ \<Rightarrow> Inl TypeError)"

definition or_else :: "error + bool \<Rightarrow> error + bool \<Rightarrow> error + bool" where
  \<comment> \<open>\<open>a || b\<close> on conditions: \<open>b\<close> is evaluated only when \<open>a\<close> is false.\<close>
  "or_else a b = (case a of Inl e \<Rightarrow> Inl e | Inr True \<Rightarrow> Inr True | Inr False \<Rightarrow> b)"

definition search_match :: "string \<Rightarrow> obj \<Rightarrow> error + bool" where
  \<comment> \<open>The callback that \<open>performSearch\<close> gives to \<open>libraryItems.filter\<close>.\<close>
  "search_match searchTerm item =
     or_else (lower_includes (property item ''title'') searchTerm)
    (or_else (lower_includes (property item ''author'') searchTerm)
    (or_else (lower_includes (property item ''category'') searchTerm)
             (lower_includes (property item ''type'') searchTerm)))"

fun filter_raising :: "('a \<Rightarrow> error + bool) \<Rightarrow> 'a list \<Rightarrow> error + 'a list" where
  \<comment> \<open>\<open>xs.filter(p)\<close> for a callback that may raise: the first error ends the call.\<close>
  "filter_raising p [] = Inr []"
| "filter_raising p (x # xs) =
     (case p x of
        Inl e \<Rightarrow> Inl e
      | Inr b \<Rightarrow>
          (case filter_raising p xs of
             Inl e \<Rightarrow> Inl e
           | Inr ys \<Rightarrow> Inr (if b then x # ys else ys)))"

datatype search_view =
    EnterSearchTerm         \<comment> \<open>\<open>Enter a search term to find items in your library.\<close>\<close>
  | NoItemsFound            \<comment> \<open>\<open>No items found matching your search.\<close>\<close>
  | ResultItems "obj list"  \<comment> \<open>one \<open>result-item\<close> block for each item, in order\<close>

definition displaySearchResults :: "obj list \<Rightarrow> search_view" where
  "displaySearchResults results = (if results = [] then NoItemsFound else ResultItems results)"

definition performSearch :: "string \<Rightarrow> obj list \<Rightarrow> error + search_view" where
  \<comment> \<open>The new content of the results container, or the error raised.\<close>
  "performSearch searchTerm items =
     (if searchTerm = [] then Inr EnterSearchTerm
      else case filter_raising (search_match searchTerm) items of
             Inl e \<Rightarrow> Inl e
           | Inr results \<Rightarrow> Inr (displaySearchResults results))"

definition setupSearch_handler :: "string \<Rightarrow> obj list \<Rightarrow> error + search_view" where
  \<comment> \<open>The click and input handlers of the search box: the value of the box is put in
      lower case and trimmed before \<open>performSearch\<close> is called.\<close>
  "setupSearch_handler val items = performSearch (trim (toLowerCase val)) items"

subsection \<open>Overlay search\<close>

text \<open>
  A masonry element is modelled by its class list, a set of class names. The overlay search
  prints numbers (\<open>publishingYear\<close>, \<open>year\<close>) before it searches them; the printing
  of a number is a parameter of the model, \<open>numberToString\<close>.
\<close>

type_synonym element = "string set"

definition opt_lower_includes :: "prim \<Rightarrow> string \<Rightarrow> error + bool" where
  \<comment> \<open>\<open>v?.toLowerCase().includes(t)\<close> read as a condition: \<open>undefined\<close> and
      \<open>null\<close> give \<open>undefined\<close>, which is false.\<close>
  "opt_lower_includes v t =
     (case v of
        Undefined \<Rightarrow> Inr False
      | Null \<Rightarrow> Inr False
      | Str s \<Rightarrow> Inr (includes_str (toLowerCase s) t)
      | _ \<Rightarrow> Inl TypeError)"

definition opt_toString_includes :: "(number \<Rightarrow> string) \<Rightarrow> prim \<Rightarrow> string \<Rightarrow> bool" where
  \<comment> \<open>\<open>v?.toString().includes(t)\<close> read as a condition.\<close>
  "opt_toString_includes numberToString v t =
     (case v of
        Undefined \<Rightarrow> False
      | Null \<Rightarrow> False
      | Bool b \<Rightarrow> includes_str (if b then ''true'' else ''false'') t
      | Number n \<Rightarrow> includes_str (numberToString n) t
      | Str s \<Rightarrow> includes_str s t)"

definition isMatch :: "(number \<Rightarrow> string) \<Rightarrow> string \<Rightarrow> obj \<Rightarrow> error + bool" where
  \<comment> \<open>The five matches are computed one after the other, then joined.\<close>
  "isMatch numberToString searchTerm libraryItem =
     (case opt_lower_includes (property libraryItem ''title'') searchTerm of
        Inl e \<Rightarrow> Inl e
      | Inr titleMatch \<Rightarrow>
     (case opt_lower_includes (property libraryItem ''author'') searchTerm of
        Inl e \<Rightarrow> Inl e
      | Inr authorMatch \<Rightarrow>
     (case opt_lower_includes (property libraryItem ''category'') searchTerm of
        Inl e \<Rightarrow> Inl e
      | Inr categoryMatch \<Rightarrow>
     (case opt_lower_includes (property libraryItem ''type'') searchTerm of
        Inl e \<Rightarrow> Inl e
      | Inr typeMatch \<Rightarrow>
          (let yearMatch =
                 (opt_toString_includes numberToString (property libraryItem ''publishingYear'') searchTerm
                  \<or> opt_toString_includes numberToString (property libraryItem ''year'') searchTerm)
           in Inr (titleMatch \<or> authorMatch \<or> categoryMatch \<or> typeMatch \<or> yearMatch))))))"

fun mark_matches ::
  "(number \<Rightarrow> string) \<Rightarrow> string \<Rightarrow> obj list \<Rightarrow> element list \<Rightarrow> error + element list" where
  \<comment> \<open>The loop over the masonry elements: element \<open>index\<close> goes with
      \<open>libraryItems[index]\<close>, and is left as it is when there is no such item. When a
      match raises, the error is the result and the elements are not reported.\<close>
  "mark_matches nts t items [] = Inr []"
| "mark_matches nts t [] (el # els) = Inr (el # els)"
| "mark_matches nts t (libraryItem # items) (el # els) =
     (case isMatch nts t libraryItem of
        Inl e \<Rightarrow> Inl e
      | Inr m \<Rightarrow>
          (case mark_matches nts t items els of
             Inl e \<Rightarrow> Inl e
           | Inr els' \<Rightarrow>
               Inr ((if m then insert ''search-match'' el else el - {''search-match''}) # els')))"

definition performOverlaySearch ::
  "(number \<Rightarrow> string) \<Rightarrow> string \<Rightarrow> obj list \<Rightarrow> element list \<Rightarrow> error + element list" where
  \<comment> \<open>The masonry elements after the call, or the error raised.\<close>
  "performOverlaySearch nts query items masonryItems =
     (if query = [] \<or> trim query = []
      then Inr (map (\<lambda>el. el - {''search-match''}) masonryItems)
      else mark_matches nts (trim (toLowerCase query)) items masonryItems)"

section \<open>Deleting an item\<close>

fun findIndex :: "('a \<Rightarrow> bool) \<Rightarrow> 'a list \<Rightarrow> nat option" where
  \<comment> \<open>\<open>xs.findIndex(p)\<close>, with \<open>None\<close> for \<open>-1\<close>.\<close>
  "findIndex p [] = None"
| "findIndex p (x # xs) = (if p x then Some 0 else map_option Suc (findIndex p xs))"

definition splice1 :: "nat \<Rightarrow> 'a list \<Rightarrow> 'a list" where
  \<comment> \<open>The array after \<open>xs.splice(i, 1)\<close>.\<close>
  "splice1 i xs = take i xs @ drop (Suc i) xs"

definition deleteLibraryItem :: "string option \<Rightarrow> prim \<Rightarrow> session \<Rightarrow> session" where
  \<comment> \<open>\<open>remote\<close> is the outcome of the awaited remote delete, consulted only for an
      authenticated session: \<open>None\<close> when it succeeds, the error's message when it
      reports an error or throws.\<close>
  "deleteLibraryItem remote itemId st =
     (case findIndex (\<lambda>item. strict_eq (property item ''id'') itemId) (libraryItems st) of
        None \<Rightarrow> showNotification ItemNotFound st
      | Some itemIndex \<Rightarrow>
          (let deletedItem = libraryItems st ! itemIndex;
               failure = (if currentUser st \<noteq> None \<and> supabase st then remote else None)
           in case failure of
                Some message \<Rightarrow> showNotification (ErrorDeleting message) st
              | None \<Rightarrow>
                  (let st1 = st\<lparr>libraryItems := splice1 itemIndex (libraryItems st)\<rparr>;
                       st2 = (if currentUser st1 = None
                              then st1\<lparr>savedLibrary := Some (libraryItems st1)\<rparr> else st1);
                       st3 = updateLibraryDisplay st2
                   in showNotification (HasBeenDeleted (property deletedItem ''title'')) st3)))"

section \<open>Google Books: the ISBN of a volume\<close>

text \<open>
  \<open>industryIdentifiers\<close> is an array of objects with a \<open>type\<close> and an
  \<open>identifier\<close>; \<open>None\<close> stands for a volume without the array.
\<close>

definition has_type :: "string \<Rightarrow> obj \<Rightarrow> bool" where
  \<comment> \<open>The callback \<open>id => id.type === t\<close> given to \<open>find\<close>.\<close>
  "has_type t ident = strict_eq (property ident ''type'') (Str t)"

definition extractISBN :: "obj list option \<Rightarrow> prim" where
  \<comment> \<open>\<open>GoogleBooksService.extractISBN\<close> of the server.\<close>
  "extractISBN identifiers =
     (case identifiers of
        None \<Rightarrow> Null
      | Some ids \<Rightarrow>
          (let isbn13 = find (has_type ''ISBN_13'') ids;
               isbn10 = find (has_type ''ISBN_10'') ids
           in case isbn13 of
                Some e13 \<Rightarrow> property e13 ''identifier''
              | None \<Rightarrow> (case isbn10 of Some e10 \<Rightarrow> property e10 ''identifier'' | None \<Rightarrow> Null)))"

definition js_or :: "prim \<Rightarrow> prim \<Rightarrow> prim" where
  \<comment> \<open>\<open>a || b\<close> on values.\<close>
  "js_or a b = (if ToBoolean a then a else b)"

definition find_identifier :: "string \<Rightarrow> obj list option \<Rightarrow> prim" where
  \<comment> \<open>\<open>industryIdentifiers?.find(id => id.type === t)?.identifier\<close>\<close>
  "find_identifier t identifiers =
     (case identifiers of
        None \<Rightarrow> Undefined
      | Some ids \<Rightarrow>
          (case find (has_type t) ids of
             None \<Rightarrow> Undefined
           | Some e \<Rightarrow> property e ''identifier''))"

definition transformResults_isbn :: "obj list option \<Rightarrow> prim" where
  \<comment> \<open>The \<open>isbn\<close> property of the item that \<open>GoogleBooksService.transformResults\<close>
      of the client builds from a volume.\<close>
  "transformResults_isbn identifiers =
     js_or (js_or (find_identifier ''ISBN_13'' identifiers) (find_identifier ''ISBN_10'' identifiers))
           (Str ''No ISBN'')"

section \<open>Gemini: reading the model's answer\<close>

subsection \<open>JSON values and \<open>JSON.parse\<close>\<close>

text \<open>
  A value read from JSON is a primitive, an array or an object. An object keeps its
  properties in the order of their first occurrence, a later occurrence of a key replacing
  the value of an earlier one. The parser reads the text into tokens and the tokens into a
  value with a stack of the arrays and objects still open. The code unit written by a
  \<open>u\<close> escape is kept modulo 256.
\<close>

datatype jsval = Prim prim | Arr "jsval list" | Obj "(string \<times> jsval) list"

datatype token =
    LBrace | RBrace | LBracket | RBracket | Colon | Comma
  | TString string | TNumber rat | TTrue | TFalse | TNull

datatype lexmode =
    Idle
  | InString string      \<comment> \<open>inside a string; the characters read so far, last first\<close>
  | Escape string        \<comment> \<open>after a backslash inside a string\<close>
  | Unicode string string  \<comment> \<open>after \<open>\\u\<close>; the hexadecimal digits read so far\<close>
  | InWord string        \<comment> \<open>inside a number or a literal name; characters last first\<close>

definition json_ws :: "char \<Rightarrow> bool" where
  "json_ws c = (c \<in> {CHR 0x20, CHR 0x09, CHR 0x0A, CHR 0x0D})"

definition word_char :: "char \<Rightarrow> bool" where
  \<comment> \<open>The characters numbers and literal names are written with.\<close>
  "word_char c =
     (let n = (of_char c :: nat)
      in (48 \<le> n \<and> n \<le> 57) \<or> (97 \<le> n \<and> n \<le> 122) \<or> (65 \<le> n \<and> n \<le> 90)
         \<or> c = CHR ''-'' \<or> c = CHR ''+'' \<or> c = CHR ''.'')"

definition json_number :: "string \<Rightarrow> rat option" where
  \<comment> \<open>An optional minus, an integer part without a superfluous leading zero, an optional
      fraction and an optional exponent.\<close>
  "json_number w =
     (let neg = startsWith w ''-'';
          r0 = (if neg then tl w else w);
          ip = takeWhile (is_digit 10) r0;
          r1 = dropWhile (is_digit 10) r0;
          dot = startsWith r1 ''.'';
          fp = (if dot then takeWhile (is_digit 10) (tl r1) else []);
          r2 = (if dot then dropWhile (is_digit 10) (tl r1) else r1);
          ex = (startsWith r2 ''e'' \<or> startsWith r2 ''E'');
          r3 = (if ex then tl r2 else r2);
          eneg = startsWith r3 ''-'';
          ed = (if startsWith r3 ''-'' \<or> startsWith r3 ''+'' then tl r3 else r3);
          mant = of_nat (digits_val 10 (ip @ fp)) / 10 ^ length fp;
          sg = (if neg then - 1 else 1)
      in if ip = [] \<or> (length ip > 1 \<and> hd ip = CHR ''0'') then None
         else if dot \<and> fp = [] then None
         else if r2 = [] then Some (sg * mant)
         else if ex \<and> all_digits ed
           then Some (sg * mant * pow10 ((if eneg then - 1 else 1) * int (digits_val 10 ed)))
         else None)"

definition word_token :: "string \<Rightarrow> token option" where
  "word_token w =
     (if w = ''true'' then Some TTrue
      else if w = ''false'' then Some TFalse
      else if w = ''null'' then Some TNull
      else map_option TNumber (json_number w))"

definition punctuation :: "char \<Rightarrow> token option" where
  "punctuation c =
     (if c = CHR ''{'' then Some LBrace else if c = CHR ''}'' then Some RBrace
      else if c = CHR ''['' then Some LBracket else if c = CHR '']'' then Some RBracket
      else if c = CHR '':'' then Some Colon else if c = CHR '','' then Some Comma
      else None)"

definition escape_char :: "char \<Rightarrow> char option" where
  "escape_char c =
     (if c = CHR 0x22 \<or> c = CHR 0x5C \<or> c = CHR ''/'' then Some c
      else if c = CHR ''b'' then Some (CHR 0x08)
      else if c = CHR ''f'' then Some (CHR 0x0C)
      else if c = CHR ''n'' then Some (CHR 0x0A)
      else if c = CHR ''r'' then Some (CHR 0x0D)
      else if c = CHR ''t'' then Some (CHR 0x09)
      else None)"

function (sequential) lex :: "lexmode \<Rightarrow> token list \<Rightarrow> string \<Rightarrow> token list option" where
  \<comment> \<open>The tokens of a text, or \<open>None\<close> when it has a character or a word that JSON does
      not allow. The tokens read so far are kept last first.\<close>
  "lex Idle acc [] = Some (rev acc)"
| "lex (InWord w) acc [] = map_option (\<lambda>t. rev (t # acc)) (word_token (rev w))"
| "lex (InString s) acc [] = None"
| "lex (Escape s) acc [] = None"
| "lex (Unicode s h) acc [] = None"
| "lex Idle acc (c # cs) =
     (if json_ws c then lex Idle acc cs
      else if c = CHR 0x22 then lex (InString []) acc cs
      else if word_char c then lex (InWord [c]) acc cs
      else case punctuation c of None \<Rightarrow> None | Some t \<Rightarrow> lex Idle (t # acc) cs)"
| "lex (InWord w) acc (c # cs) =
     (if word_char c then lex (InWord (c # w)) acc cs
      else case word_token (rev w) of None \<Rightarrow> None | Some t \<Rightarrow> lex Idle (t # acc) (c # cs))"
| "lex (InString s) acc (c # cs) =
     (if c = CHR 0x22 then lex Idle (TString (rev s) # acc) cs
      else if c = CHR 0x5C then lex (Escape s) acc cs
      else if (of_char c :: nat) < 32 then None
      else lex (InString (c # s)) acc cs)"
| "lex (Escape s) acc (c # cs) =
     (if c = CHR ''u'' then lex (Unicode s []) acc cs
      else case escape_char c of None \<Rightarrow> None | Some d \<Rightarrow> lex (InString (d # s)) acc cs)"
| "lex (Unicode s h) acc (c # cs) =
     (if \<not> is_digit 16 c then None
      else if length h = 3 then lex (InString (char_of (digits_val 16 (h @ [c])) # s)) acc cs
      else lex (Unicode s (h @ [c])) acc cs)"
  by pat_completeness auto
termination
  by (relation "measure (\<lambda>(m, acc, cs). 2 * length cs + (case m of InWord w \<Rightarrow> 1 | _ \<Rightarrow> 0))") auto

datatype frame =
    ArrFrame "jsval list"                          \<comment> \<open>an open array; its elements last first\<close>
  | ObjFrame "(string \<times> jsval) list" "string option"  \<comment> \<open>an open object; the key awaiting its value\<close>

datatype expect =
    EValue | EValueOrClose | EKeyOrClose | EKey | EColon | ECommaOrClose | EDone jsval

definition complete :: "jsval \<Rightarrow> frame list \<Rightarrow> (expect \<times> frame list) option" where
  \<comment> \<open>A value has been read: it is the whole text, the next element of the open array or
      the value of the pending key.\<close>
  "complete v stk =
     (case stk of
        [] \<Rightarrow> Some (EDone v, [])
      | ArrFrame es # rest \<Rightarrow> Some (ECommaOrClose, ArrFrame (v # es) # rest)
      | ObjFrame ms None # rest \<Rightarrow> None
      | ObjFrame ms (Some k) # rest \<Rightarrow> Some (ECommaOrClose, ObjFrame (AList.update k v ms) None # rest))"

definition value_start :: "token \<Rightarrow> frame list \<Rightarrow> (expect \<times> frame list) option" where
  "value_start t stk =
     (case t of
        LBrace \<Rightarrow> Some (EKeyOrClose, ObjFrame [] None # stk)
      | LBracket \<Rightarrow> Some (EValueOrClose, ArrFrame [] # stk)
      | TString s \<Rightarrow> complete (Prim (Str s)) stk
      | TNumber x \<Rightarrow> complete (Prim (Number (Fin x))) stk
      | TTrue \<Rightarrow> complete (Prim (Bool True)) stk
      | TFalse \<Rightarrow> complete (Prim (Bool False)) stk
      | TNull \<Rightarrow> complete (Prim Null) stk
      | _ \<Rightarrow> None)"

definition key_start :: "token \<Rightarrow> frame list \<Rightarrow> (expect \<times> frame list) option" where
  "key_start t stk =
     (case (t, stk) of
        (TString k, ObjFrame ms None # rest) \<Rightarrow> Some (EColon, ObjFrame ms (Some k) # rest)
      | _ \<Rightarrow> None)"

definition close_frame :: "token \<Rightarrow> frame list \<Rightarrow> (expect \<times> frame list) option" where
  "close_frame t stk =
     (case (t, stk) of
        (RBracket, ArrFrame es # rest) \<Rightarrow> complete (Arr (rev es)) rest
      | (RBrace, ObjFrame ms None # rest) \<Rightarrow> complete (Obj ms) rest
      | _ \<Rightarrow> None)"

definition pstep :: "expect \<times> frame list \<Rightarrow> token \<Rightarrow> (expect \<times> frame list) option" where
  "pstep st t =
     (case st of (e, stk) \<Rightarrow>
        (case e of
           EValue \<Rightarrow> value_start t stk
         | EValueOrClose \<Rightarrow> (if t = RBracket then close_frame t stk else value_start t stk)
         | EKeyOrClose \<Rightarrow> (if t = RBrace then close_frame t stk else key_start t stk)
         | EKey \<Rightarrow> key_start t stk
         | EColon \<Rightarrow> (if t = Colon then Some (EValue, stk) else None)
         | ECommaOrClose \<Rightarrow>
             (if t = Comma
              then (case stk of
                      ArrFrame es # rest \<Rightarrow> Some (EValue, stk)
                    | ObjFrame ms k # rest \<Rightarrow> Some (EKey, stk)
                    | [] \<Rightarrow> None)
              else close_frame t stk)
         | EDone v \<Rightarrow> None))"

fun run :: "expect \<times> frame list \<Rightarrow> token list \<Rightarrow> (expect \<times> frame list) option" where
  "run st [] = Some st"
| "run st (t # ts) = (case pstep st t of None \<Rightarrow> None | Some st' \<Rightarrow> run st' ts)"

definition JSON_parse :: "string \<Rightarrow> jsval option" where
  \<comment> \<open>\<open>JSON.parse(text)\<close>; \<open>None\<close> when it throws a \<open>SyntaxError\<close>.\<close>
  "JSON_parse text =
     (case lex Idle [] text of
        None \<Rightarrow> None
      | Some ts \<Rightarrow>
          (case run (EValue, []) ts of
             Some (EDone v, []) \<Rightarrow> Some v
           | _ \<Rightarrow> None))"

definition in_object :: "expect \<times> frame list \<Rightarrow> bool" where
  \<comment> \<open>The parser is inside an object that is the whole text, or has just read one.\<close>
  "in_object st =
     (case st of (e, stk) \<Rightarrow>
        (stk \<noteq> [] \<and> (\<exists>ms k. last stk = ObjFrame ms k))
        \<or> (stk = [] \<and> (\<exists>ms. e = EDone (Obj ms))))"

subsection \<open>Operations on values read from JSON\<close>

fun truthy :: "jsval \<Rightarrow> bool" where
  \<comment> \<open>Arrays and objects count as true.\<close>
  "truthy (Prim p) = ToBoolean p"
| "truthy (Arr vs) = True"
| "truthy (Obj ms) = True"

definition or_null :: "jsval \<Rightarrow> jsval" where
  \<comment> \<open>\<open>v || null\<close>\<close>
  "or_null v = (if truthy v then v else Prim Null)"

fun parseInt_val :: "jsval \<Rightarrow> number" where
  \<comment> \<open>\<open>parseInt(v)\<close>: an array prints as its elements joined by commas, so only its
      first element is read; an object prints as \<open>[object Object]\<close>.\<close>
  "parseInt_val (Prim p) = parseInt p"
| "parseInt_val (Arr []) = NaN"
| "parseInt_val (Arr (v # vs)) = parseInt_val v"
| "parseInt_val (Obj ms) = NaN"

definition member :: "(string \<times> jsval) list \<Rightarrow> string \<Rightarrow> jsval" where
  \<comment> \<open>\<open>parsed.k\<close> for an object read from JSON.\<close>
  "member ms k = (case map_of ms k of None \<Rightarrow> Prim Undefined | Some v \<Rightarrow> v)"

subsection \<open>\<open>GeminiService.parseGeminiResponse\<close> and \<open>fallbackTextParsing\<close>\<close>

record bookInfo =
  title :: jsval
  author :: jsval
  isbn :: jsval
  publisher :: jsval
  year :: jsval
  description :: jsval
  category :: jsval
  confidence :: jsval
  source :: jsval

definition match_braces :: "string \<Rightarrow> string option" where
  \<comment> \<open>\<open>responseText.match(/\{[\s\S]*\}/)\<close>: the star is greedy, so the match runs from
      the first \<open>{\<close> to the last \<open>}\<close> of the text, when there is a \<open>}\<close> after the
      first \<open>{\<close>.\<close>
  "match_braces responseText =
     (let t = dropWhile (\<lambda>c. c \<noteq> CHR ''{'') responseText
      in if t \<noteq> [] \<and> CHR ''}'' \<in> set (tl t)
         then Some (CHR ''{'' # rev (dropWhile (\<lambda>c. c \<noteq> CHR ''}'') (rev (tl t))))
         else None)"

fun split_on :: "char \<Rightarrow> string \<Rightarrow> string list" where
  \<comment> \<open>\<open>s.split(d)\<close> for a separator of one character.\<close>
  "split_on d [] = [[]]"
| "split_on d (c # cs) =
     (if c = d then [] # split_on d cs
      else case split_on d cs of [] \<Rightarrow> [[c]] | l # ls \<Rightarrow> (c # l) # ls)"

definition after_colon :: "string \<Rightarrow> jsval" where
  \<comment> \<open>\<open>line.split(':')[1]?.trim() || null\<close>\<close>
  "after_colon line =
     (case split_on CHR '':'' line of
        a # b # rest \<Rightarrow> (if trim b \<noteq> [] then Prim (Str (trim b)) else Prim Null)
      | _ \<Rightarrow> Prim Null)"

fun match_4digits :: "string \<Rightarrow> string option" where
  \<comment> \<open>\<open>line.match(/\d{4}/)\<close>: the first run of four digits.\<close>
  "match_4digits [] = None"
| "match_4digits (c # cs) =
     (if length (c # cs) \<ge> 4 \<and> list_all (is_digit 10) (take 4 (c # cs))
      then Some (take 4 (c # cs)) else match_4digits cs)"

definition placeholder :: bookInfo where
  \<comment> \<open>The record \<open>fallbackTextParsing\<close> starts from.\<close>
  "placeholder =
     \<lparr>title = Prim Null, author = Prim Null, isbn = Prim Null, publisher = Prim Null,
      year = Prim Null, description = Prim Null, category = Prim Null,
      confidence = Prim (Number (Fin 50)), source = Prim (Str ''gemini_ai'')\<rparr>"

definition fallback_line :: "bookInfo \<Rightarrow> string \<Rightarrow> bookInfo" where
  \<comment> \<open>The body of the loop over the lines.\<close>
  "fallback_line bookInfo line =
     (let lowerLine = toLowerCase line
      in if includes_str lowerLine ''title:'' \<and> \<not> truthy (title bookInfo)
           then bookInfo\<lparr>title := after_colon line\<rparr>
         else if includes_str lowerLine ''author:'' \<and> \<not> truthy (author bookInfo)
           then bookInfo\<lparr>author := after_colon line\<rparr>
         else if includes_str lowerLine ''isbn:'' \<and> \<not> truthy (isbn bookInfo)
           then bookInfo\<lparr>isbn := after_colon line\<rparr>
         else if includes_str lowerLine ''publisher:'' \<and> \<not> truthy (publisher bookInfo)
           then bookInfo\<lparr>publisher := after_colon line\<rparr>
         else if includes_str lowerLine ''year:'' \<and> \<not> truthy (year bookInfo)
           then bookInfo\<lparr>year := (case match_4digits line of
                                     Some yearMatch \<Rightarrow> Prim (Number (parseInt_str yearMatch))
                                   | None \<Rightarrow> Prim Null)\<rparr>
         else if includes_str lowerLine ''category:'' \<and> \<not> truthy (category bookInfo)
           then bookInfo\<lparr>category := after_colon line\<rparr>
         else bookInfo)"

definition fallbackTextParsing :: "string \<Rightarrow> bookInfo" where
  "fallbackTextParsing responseText =
     foldl fallback_line placeholder (split_on CHR 0x0A responseText)"

definition parseGeminiResponse :: "string \<Rightarrow> bookInfo" where
  \<comment> \<open>A \<open>SyntaxError\<close> of \<open>JSON.parse\<close> is caught and leads to the fallback. A text that
      starts with \<open>{\<close> parses to an object or not at all; for any other value the
      fallback stands in.\<close>
  "parseGeminiResponse responseText =
     (case match_braces responseText of
        None \<Rightarrow> fallbackTextParsing responseText
      | Some jsonStr \<Rightarrow>
          (case JSON_parse jsonStr of
             Some (Obj parsed) \<Rightarrow>
               \<lparr>title = or_null (member parsed ''title''),
                author = or_null (member parsed ''author''),
                isbn = or_null (member parsed ''isbn''),
                publisher = or_null (member parsed ''publisher''),
                year = (if truthy (member parsed ''year'')
                        then Prim (Number (parseInt_val (member parsed ''year''))) else Prim Null),
                description = or_null (member parsed ''description''),
                category = or_null (member parsed ''category''),
                confidence = (if truthy (member parsed ''confidence'')
                              then Prim (Number (parseInt_val (member parsed ''confidence'')))
                              else Prim Null),
                source = Prim (Str ''gemini_ai'')\<rparr>
           | _ \<Rightarrow> fallbackTextParsing responseText))"

section \<open>Properties of the structured filters\<close>

lemma property_initialFilters:
  "property initialFilters ''type'' = Str ''all''"
  "property initialFilters ''status'' = Str ''all''"
  "property initialFilters ''rating'' = Str ''all''"
  "property initialFilters ''difficulty'' = Str ''all''"
  "property initialFilters ''language'' = Str ''all''"
  "property initialFilters ''category'' = Str ''all''"
  by (simp_all add: property_def initialFilters_def)

text \<open>
  C3. When each of the six filters (type, status, rating, difficulty, language, category)
  is \<open>all\<close>, \<open>applyFilters\<close> hands the renderer the whole collection, same items in
  the same order, and the collection itself is left as it was.
\<close>

theorem applyFilters_all_unchanged:
  assumes "property (activeFilters st) ''type'' = Str ''all''"
    and "property (activeFilters st) ''status'' = Str ''all''"
    and "property (activeFilters st) ''rating'' = Str ''all''"
    and "property (activeFilters st) ''difficulty'' = Str ''all''"
    and "property (activeFilters st) ''language'' = Str ''all''"
    and "property (activeFilters st) ''category'' = Str ''all''"
  shows "filteredItems st = libraryItems st
       \<and> displayed (applyFilters st) = libraryItems st
       \<and> libraryItems (applyFilters st) = libraryItems st"
proof -
  have keep: "keeps (activeFilters st) item" for item
    using assms by (simp add: keeps_def)
  have f: "filteredItems st = libraryItems st"
    by (simp add: filteredItems_def keep)
  show ?thesis
    by (simp add: f applyFilters_def showNotification_def Let_def)
qed

theorem applyFilters_all_unchanged_witness:
  "property initialFilters ''type'' = Str ''all''
   \<and> property initialFilters ''status'' = Str ''all''
   \<and> property initialFilters ''rating'' = Str ''all''
   \<and> property initialFilters ''difficulty'' = Str ''all''
   \<and> property initialFilters ''language'' = Str ''all''
   \<and> property initialFilters ''category'' = Str ''all''
   \<and> displayed (applyFilters
        \<lparr>libraryItems = [[(''title'', Str ''Dune''), (''rating'', Number (Fin 0))],
                         [(''title'', Str ''Emma'')]],
         activeFilters = initialFilters, currentUser = None, supabase = False,
         savedLibrary = None, displayed = [], notifications = []\<rparr>)
     = [[(''title'', Str ''Dune''), (''rating'', Number (Fin 0))], [(''title'', Str ''Emma'')]]"
  using applyFilters_all_unchanged
    [of "\<lparr>libraryItems = [[(''title'', Str ''Dune''), (''rating'', Number (Fin 0))],
                         [(''title'', Str ''Emma'')]],
         activeFilters = initialFilters, currentUser = None, supabase = False,
         savedLibrary = None, displayed = [], notifications = []\<rparr>"]
  by (simp add: property_initialFilters)







text \<open>
  On a difficulty that is an integer the buckets are what they are said to be.
\<close>

lemma parseInt_num_of_int:
  assumes "\<bar>n\<bar> < 10 ^ 21"
  shows "parseInt_num (Fin (of_int n)) = Fin (of_int n)"
proof (cases "n = 0")
  case True
  then show ?thesis by (simp add: parseInt_num_def)
next
  case False
  have "1 \<le> \<bar>n\<bar>"
    using False by arith
  then have "(1 :: rat) \<le> of_int \<bar>n\<bar>"
    by (simp only: of_int_1_le_iff)
  then have lo: "(1 :: rat) / 10 ^ 6 \<le> \<bar>of_int n\<bar>"
    by (simp only: of_int_abs) simp
  have hi: "\<bar>rat_of_int n\<bar> < 10 ^ 21"
    using assms by simp
  have fl: "\<lfloor>\<bar>rat_of_int n\<bar>\<rfloor> = \<bar>n\<bar>"
    by (simp only: of_int_abs [symmetric] floor_of_int)
  have sg: "(if rat_of_int n < 0 then - 1 else 1) * \<bar>n\<bar> = n"
    by simp
  have nz: "rat_of_int n \<noteq> 0"
    using False by simp
  show ?thesis
    unfolding parseInt_num_def number.case Let_def
    by (simp only: nz lo hi fl sg if_False if_True simp_thms)
qed

lemma property_setFilter_difficulty:
  "property (setFilter ''difficulty'' b initialFilters) ''type'' = Str ''all''"
  "property (setFilter ''difficulty'' b initialFilters) ''status'' = Str ''all''"
  "property (setFilter ''difficulty'' b initialFilters) ''rating'' = Str ''all''"
  "property (setFilter ''difficulty'' b initialFilters) ''difficulty'' = Str b"
  "property (setFilter ''difficulty'' b initialFilters) ''language'' = Str ''all''"
  "property (setFilter ''difficulty'' b initialFilters) ''category'' = Str ''all''"
  by (simp_all add: property_def initialFilters_def setFilter_def)

lemma keeps_difficulty_integer:
  assumes "property item ''difficulty'' = Number (Fin (of_int n))" and "\<bar>n\<bar> < 10 ^ 21"
  shows "keeps (setFilter ''difficulty'' ''easy'' initialFilters) item \<longleftrightarrow> 1 \<le> n \<and> n \<le> 3"
    and "keeps (setFilter ''difficulty'' ''medium'' initialFilters) item \<longleftrightarrow> 4 \<le> n \<and> n \<le> 7"
    and "keeps (setFilter ''difficulty'' ''hard'' initialFilters) item \<longleftrightarrow> 8 \<le> n \<and> n \<le> 10"
proof -
  have p: "parseInt (property item ''difficulty'') = Fin (of_int n)"
    using assms by (simp add: parseInt_num_of_int)
  have t: "ToBoolean (property item ''difficulty'') \<longleftrightarrow> n \<noteq> 0"
    using assms(1) by simp
  show "keeps (setFilter ''difficulty'' ''easy'' initialFilters) item \<longleftrightarrow> 1 \<le> n \<and> n \<le> 3"
    unfolding keeps_def property_setFilter_difficulty Let_def p t by auto
  show "keeps (setFilter ''difficulty'' ''medium'' initialFilters) item \<longleftrightarrow> 4 \<le> n \<and> n \<le> 7"
    unfolding keeps_def property_setFilter_difficulty Let_def p t by auto
  show "keeps (setFilter ''difficulty'' ''hard'' initialFilters) item \<longleftrightarrow> 8 \<le> n \<and> n \<le> 10"
    unfolding keeps_def property_setFilter_difficulty Let_def p t by auto
qed

text \<open>
  C6. The difficulty filter is meant to keep an item iff its difficulty is present and, as
  an integer, lies in the bucket: 1 to 3 for \<open>easy\<close>, 4 to 7 for \<open>medium\<close>, 8 to 10
  for \<open>hard\<close>. The code does not do this for a difficulty that is not a number: an
  item whose difficulty is the text \<open>medium\<close> (the value \<open>loadLibraryData\<close> gives to
  a stored item without difficulty) has no integer value, \<open>parseInt\<close> answers
  \<open>NaN\<close>, both comparisons of each bucket are false, and the item passes all three
  buckets.
\<close>

theorem difficulty_text_passes_every_bucket:
  "parseInt (Str ''medium'') = NaN
   \<and> keeps (setFilter ''difficulty'' ''easy'' initialFilters)
        [(''title'', Str ''Dune''), (''difficulty'', Str ''medium'')]
   \<and> keeps (setFilter ''difficulty'' ''medium'' initialFilters)
        [(''title'', Str ''Dune''), (''difficulty'', Str ''medium'')]
   \<and> keeps (setFilter ''difficulty'' ''hard'' initialFilters)
        [(''title'', Str ''Dune''), (''difficulty'', Str ''medium'')]"
  by code_simp

theorem difficulty_text_passes_every_bucket_witness:
  "filteredItems
     \<lparr>libraryItems = [[(''title'', Str ''Dune''), (''difficulty'', Str ''medium'')]],
      activeFilters = setFilter ''difficulty'' ''easy'' initialFilters, currentUser = None,
      supabase = False, savedLibrary = None, displayed = [], notifications = []\<rparr>
   = [[(''title'', Str ''Dune''), (''difficulty'', Str ''medium'')]]"
  using difficulty_text_passes_every_bucket by (simp add: filteredItems_def)

section \<open>Properties of the free-text search\<close>

lemma is_ws_lower_char: "is_ws c \<Longrightarrow> lower_char c = c"
  by (auto simp: is_ws_def lower_char_def)

lemma trim_empty_iff: "trim s = [] \<longleftrightarrow> (\<forall>c \<in> set s. is_ws c)"
proof
  assume "trim s = []"
  then have all: "\<forall>x \<in> set (dropWhile is_ws s). is_ws x"
    by (simp add: trim_def)
  have "dropWhile is_ws s = []"
  proof (rule ccontr)
    assume ne: "dropWhile is_ws s \<noteq> []"
    then have "\<not> is_ws (hd (dropWhile is_ws s))"
      by (rule hd_dropWhile)
    moreover have "hd (dropWhile is_ws s) \<in> set (dropWhile is_ws s)"
      using ne by simp
    ultimately show False
      using all by blast
  qed
  then show "\<forall>c \<in> set s. is_ws c"
    by simp
next
  assume "\<forall>c \<in> set s. is_ws c"
  then show "trim s = []"
    by (auto simp: trim_def dest: set_dropWhileD)
qed

lemma trim_toLowerCase_empty: "trim q = [] \<Longrightarrow> trim (toLowerCase q) = []"
  by (auto simp: trim_empty_iff toLowerCase_def is_ws_lower_char)

text \<open>
  C4, as the code has it. For the empty search term \<open>performSearch\<close> puts the prompt
  \<open>Enter a search term to find items in your library.\<close> into the results container and
  lists no item; the handlers of the search box trim the text of the box first, so a text
  of white space only ends there too. For an empty query or one of white space only
  \<open>performOverlaySearch\<close> takes the class \<open>search-match\<close> off every masonry element, so
  that no element is marked as a match.
\<close>

theorem empty_query_views:
  "performSearch [] items = Inr EnterSearchTerm
   \<and> (trim q = [] \<longrightarrow>
        setupSearch_handler q items = Inr EnterSearchTerm
        \<and> performOverlaySearch nts q items masonryItems
            = Inr (map (\<lambda>el. el - {''search-match''}) masonryItems)
        \<and> (\<forall>els. performOverlaySearch nts q items masonryItems = Inr els
              \<longrightarrow> length els = length masonryItems \<and> (\<forall>el \<in> set els. ''search-match'' \<notin> el)))"
  by (auto simp: performSearch_def setupSearch_handler_def performOverlaySearch_def
      trim_toLowerCase_empty)

theorem empty_query_views_witness:
  "trim ''  '' = []
   \<and> setupSearch_handler ''  '' [[(''title'', Str ''Dune'')]] = Inr EnterSearchTerm
   \<and> performOverlaySearch (\<lambda>n. []) ''  '' [[(''title'', Str ''Dune'')]]
         [{''masonry-item'', ''search-match''}]
       = Inr [{''masonry-item''}]"
  using empty_query_views
    [of "[[(''title'', Str ''Dune'')]]" "''  ''" "\<lambda>n. []" "[{''masonry-item'', ''search-match''}]"]
  by (auto simp: trim_def is_ws_def)

text \<open>
  The claim as the specification words it fails: for the empty term the library search
  does not show the collection.
\<close>

theorem performSearch_empty_counterexample:
  "performSearch [] [[(''title'', Str ''Dune'')]] = Inr EnterSearchTerm
   \<and> performSearch [] [[(''title'', Str ''Dune'')]] \<noteq> Inr (ResultItems [[(''title'', Str ''Dune'')]])"
  by (simp add: performSearch_def)

text \<open>
  C5. No filter or search is meant to raise: an absent field is to count as no match. The
  library search does raise. Its callback calls \<open>toLowerCase\<close> on \<open>item.author\<close>
  without a guard, so for an item without author, and a term that the title does not
  contain, the call ends with a \<open>TypeError\<close>. The overlay search guards the same four
  reads with \<open>?.\<close>.
\<close>

theorem performSearch_missing_author_raises:
  "performSearch ''herbert''
     [[(''title'', Str ''Dune''), (''category'', Str ''Fiction''), (''type'', Str ''book'')]]
   = Inl TypeError"
  by code_simp

section \<open>Properties of deletion\<close>

lemma findIndex_None_iff: "findIndex p xs = None \<longleftrightarrow> (\<forall>x \<in> set xs. \<not> p x)"
  by (induction xs) auto






text \<open>
  C10. When no item has the id, or when the session is authenticated and the remote delete
  fails, \<open>deleteLibraryItem\<close> shows an error notification and does nothing else: the
  collection in memory is the same as before.
\<close>

theorem deleteLibraryItem_failure_keeps_collection:
  assumes "(\<forall>item \<in> set (libraryItems st). \<not> strict_eq (property item ''id'') itemId)
           \<or> (currentUser st \<noteq> None \<and> supabase st \<and> remote = Some message)"
  shows "libraryItems (deleteLibraryItem remote itemId st) = libraryItems st
       \<and> (deleteLibraryItem remote itemId st = showNotification ItemNotFound st
          \<or> deleteLibraryItem remote itemId st = showNotification (ErrorDeleting message) st)"
proof (cases "findIndex (\<lambda>item. strict_eq (property item ''id'') itemId) (libraryItems st)")
  case None
  then show ?thesis
    by (simp add: deleteLibraryItem_def showNotification_def)
next
  case (Some i)
  then have "\<not> (\<forall>item \<in> set (libraryItems st). \<not> strict_eq (property item ''id'') itemId)"
    using findIndex_None_iff [of "\<lambda>item. strict_eq (property item ''id'') itemId" "libraryItems st"]
    by simp
  with assms have "currentUser st \<noteq> None \<and> supabase st \<and> remote = Some message"
    by blast
  with Some show ?thesis
    by (simp add: deleteLibraryItem_def showNotification_def Let_def)
qed

theorem deleteLibraryItem_failure_keeps_collection_witness:
  "libraryItems (deleteLibraryItem None (Str ''2'')
        \<lparr>libraryItems = [[(''id'', Number (Fin 1)), (''title'', Str ''Dune'')],
                         [(''id'', Number (Fin 2)), (''title'', Str ''Emma'')]],
         activeFilters = initialFilters, currentUser = None, supabase = False,
         savedLibrary = None, displayed = [], notifications = []\<rparr>)
     = [[(''id'', Number (Fin 1)), (''title'', Str ''Dune'')],
        [(''id'', Number (Fin 2)), (''title'', Str ''Emma'')]]
   \<and> libraryItems (deleteLibraryItem (Some ''network'') (Number (Fin 2))
        \<lparr>libraryItems = [[(''id'', Number (Fin 1)), (''title'', Str ''Dune'')],
                         [(''id'', Number (Fin 2)), (''title'', Str ''Emma'')]],
         activeFilters = initialFilters, currentUser = Some [(''id'', Str ''u1'')], supabase = True,
         savedLibrary = None, displayed = [], notifications = []\<rparr>)
     = [[(''id'', Number (Fin 1)), (''title'', Str ''Dune'')],
        [(''id'', Number (Fin 2)), (''title'', Str ''Emma'')]]"
  using deleteLibraryItem_failure_keeps_collection
    [of "\<lparr>libraryItems = [[(''id'', Number (Fin 1)), (''title'', Str ''Dune'')],
                         [(''id'', Number (Fin 2)), (''title'', Str ''Emma'')]],
         activeFilters = initialFilters, currentUser = None, supabase = False,
         savedLibrary = None, displayed = [], notifications = []\<rparr>" "Str ''2''" None "[]"]
    deleteLibraryItem_failure_keeps_collection
    [of "\<lparr>libraryItems = [[(''id'', Number (Fin 1)), (''title'', Str ''Dune'')],
                         [(''id'', Number (Fin 2)), (''title'', Str ''Emma'')]],
         activeFilters = initialFilters, currentUser = Some [(''id'', Str ''u1'')], supabase = True,
         savedLibrary = None, displayed = [], notifications = []\<rparr>" "Number (Fin 2)" "Some ''network''" "''network''"]
  by (simp add: property_def)

section \<open>Properties of the Google Books normalisation\<close>

text \<open>
  C7, as the code has it. When the identifiers of a volume hold an \<open>ISBN_13\<close> entry,
  \<open>extractISBN\<close> (server) answers the identifier of the first such entry, and so does
  \<open>transformResults\<close> (client) provided that identifier is true as a condition, that is,
  not empty or missing. When they hold no \<open>ISBN_13\<close> entry and an \<open>ISBN_10\<close>
  entry, the same is so for the first \<open>ISBN_10\<close> entry.
\<close>

theorem isbn_13_preferred:
  "(find (has_type ''ISBN_13'') ids = Some e13 \<longrightarrow>
      extractISBN (Some ids) = property e13 ''identifier''
      \<and> (ToBoolean (property e13 ''identifier'') \<longrightarrow>
           transformResults_isbn (Some ids) = property e13 ''identifier''))
   \<and> (find (has_type ''ISBN_13'') ids = None \<and> find (has_type ''ISBN_10'') ids = Some e10 \<longrightarrow>
      extractISBN (Some ids) = property e10 ''identifier''
      \<and> (ToBoolean (property e10 ''identifier'') \<longrightarrow>
           transformResults_isbn (Some ids) = property e10 ''identifier''))"
  by (simp add: extractISBN_def transformResults_isbn_def find_identifier_def js_or_def)

theorem isbn_13_preferred_witness:
  "extractISBN (Some [[(''type'', Str ''ISBN_10''), (''identifier'', Str ''0306406152'')],
                      [(''type'', Str ''ISBN_13''), (''identifier'', Str ''9780306406157'')]])
     = Str ''9780306406157''
   \<and> transformResults_isbn (Some [[(''type'', Str ''ISBN_10''), (''identifier'', Str ''0306406152'')],
                      [(''type'', Str ''ISBN_13''), (''identifier'', Str ''9780306406157'')]])
     = Str ''9780306406157''
   \<and> extractISBN (Some [[(''type'', Str ''OTHER''), (''identifier'', Str ''OCLC:1'')],
                        [(''type'', Str ''ISBN_10''), (''identifier'', Str ''0306406152'')]])
     = Str ''0306406152''
   \<and> transformResults_isbn (Some [[(''type'', Str ''OTHER''), (''identifier'', Str ''OCLC:1'')],
                        [(''type'', Str ''ISBN_10''), (''identifier'', Str ''0306406152'')]])
     = Str ''0306406152''"
  using isbn_13_preferred
      [of "[[(''type'', Str ''ISBN_10''), (''identifier'', Str ''0306406152'')],
            [(''type'', Str ''ISBN_13''), (''identifier'', Str ''9780306406157'')]]"
          "[(''type'', Str ''ISBN_13''), (''identifier'', Str ''9780306406157'')]"
          "[(''type'', Str ''ISBN_10''), (''identifier'', Str ''0306406152'')]"]
    isbn_13_preferred
      [of "[[(''type'', Str ''OTHER''), (''identifier'', Str ''OCLC:1'')],
            [(''type'', Str ''ISBN_10''), (''identifier'', Str ''0306406152'')]]"
          "[]"
          "[(''type'', Str ''ISBN_10''), (''identifier'', Str ''0306406152'')]"]
  by (simp add: has_type_def property_def)

text \<open>
  The claim as the specification words it fails in the client: an \<open>ISBN_13\<close> entry
  whose identifier is the empty string is passed over for the \<open>ISBN_10\<close> entry.
\<close>

theorem transformResults_isbn_counterexample:
  "transformResults_isbn (Some [[(''type'', Str ''ISBN_13''), (''identifier'', Str [])],
                               [(''type'', Str ''ISBN_10''), (''identifier'', Str ''0306406152'')]])
     = Str ''0306406152''
   \<and> find (has_type ''ISBN_13'') [[(''type'', Str ''ISBN_13''), (''identifier'', Str [])],
                               [(''type'', Str ''ISBN_10''), (''identifier'', Str ''0306406152'')]]
     = Some [(''type'', Str ''ISBN_13''), (''identifier'', Str [])]"
  by (simp add: transformResults_isbn_def find_identifier_def js_or_def has_type_def property_def)

section \<open>Properties of the reading of the Gemini answer\<close>

text \<open>
  A text that starts with \<open>{\<close> parses to an object or not at all, and the span matched
  in the answer starts with \<open>{\<close>: the last case of \<open>parseGeminiResponse\<close> is taken
  only when \<open>JSON.parse\<close> fails.
\<close>

lemma lex_keeps_first:
  "lex m acc cs = Some ts \<Longrightarrow> acc \<noteq> [] \<Longrightarrow> ts \<noteq> [] \<and> hd ts = last acc"
proof (induction m acc cs arbitrary: ts rule: lex.induct)
  case (1 acc)
  then show ?case by (auto simp: hd_rev)
next
  case (2 w acc)
  then show ?case by (auto simp: hd_rev hd_append)
next
  case (6 acc c cs)
  then show ?case by (auto split: if_splits option.splits)
next
  case (7 w acc c cs)
  then show ?case by (auto split: if_splits option.splits)
next
  case (8 s acc c cs)
  then show ?case by (auto split: if_splits option.splits)
next
  case (9 s acc c cs)
  then show ?case by (auto split: if_splits option.splits)
next
  case (10 s h acc c cs)
  then show ?case by (auto split: if_splits option.splits)
qed simp_all

lemma complete_open:
  assumes "complete v stk = Some (e, stk')" and "stk \<noteq> []" and "last stk = ObjFrame ms k"
  shows "stk' \<noteq> [] \<and> (\<exists>ms' k'. last stk' = ObjFrame ms' k')"
proof (cases stk)
  case Nil
  with assms(2) show ?thesis by simp
next
  case (Cons f rest)
  show ?thesis
  proof (cases "rest = []")
    case True
    with assms(1,3) Cons show ?thesis
      by (auto simp: complete_def split: frame.splits option.splits)
  next
    case False
    with assms(1,3) Cons show ?thesis
      by (auto simp: complete_def split: frame.splits option.splits)
  qed
qed

lemma complete_in_object:
  assumes "complete v stk = Some st'"
    and "stk = [] \<longrightarrow> (\<exists>ms. v = Obj ms)"
    and "stk \<noteq> [] \<longrightarrow> (\<exists>ms k. last stk = ObjFrame ms k)"
  shows "in_object st'"
proof (cases "stk = []")
  case True
  with assms show ?thesis
    by (auto simp: complete_def in_object_def)
next
  case False
  obtain e stk' where st': "st' = (e, stk')" by (cases st')
  from False assms(3) obtain ms k where "last stk = ObjFrame ms k" by blast
  from complete_open [OF assms(1) [unfolded st'] False this] st' show ?thesis
    by (simp add: in_object_def)
qed

lemma value_start_in_object:
  assumes "value_start t stk = Some st'" and "stk \<noteq> []" and "last stk = ObjFrame ms k"
  shows "in_object st'"
proof (cases t)
  case LBrace
  with assms show ?thesis by (auto simp: value_start_def in_object_def)
next
  case LBracket
  with assms show ?thesis by (auto simp: value_start_def in_object_def)
qed (use assms in \<open>auto simp: value_start_def intro: complete_in_object\<close>)

lemma key_start_in_object:
  assumes "key_start t stk = Some st'" and "stk \<noteq> []" and "last stk = ObjFrame ms k"
  shows "in_object st'"
  using assms
  by (auto simp: key_start_def in_object_def split: token.splits list.splits frame.splits option.splits)

lemma close_frame_in_object:
  assumes "close_frame t stk = Some st'" and "stk \<noteq> []" and "last stk = ObjFrame ms k"
  shows "in_object st'"
proof (cases stk)
  case Nil
  with assms(2) show ?thesis by simp
next
  case (Cons f rest)
  show ?thesis
  proof (cases "rest = []")
    case True
    with assms(1,3) Cons show ?thesis
      by (auto simp: close_frame_def complete_def in_object_def
          split: token.splits frame.splits option.splits)
  next
    case False
    then have l: "last rest = ObjFrame ms k"
      using assms(3) Cons by simp
    from assms(1) Cons obtain v where "complete v rest = Some st'"
      by (auto simp: close_frame_def split: token.splits frame.splits option.splits)
    then show ?thesis
      using False l by (auto intro: complete_in_object)
  qed
qed

lemma pstep_in_object:
  assumes "in_object st" and "pstep st t = Some st'"
  shows "in_object st'"
proof -
  obtain e stk where st: "st = (e, stk)" by (cases st)
  show ?thesis
  proof (cases "stk = []")
    case True
    with assms st show ?thesis
      by (auto simp: in_object_def pstep_def)
  next
    case False
    with assms(1) st obtain ms k where l: "last stk = ObjFrame ms k"
      by (auto simp: in_object_def)
    note vs = value_start_in_object [OF _ False l]
      and ks = key_start_in_object [OF _ False l]
      and cf = close_frame_in_object [OF _ False l]
    have same: "in_object (e', stk)" for e'
      using False l by (simp add: in_object_def)
    show ?thesis
      using assms(2) st vs ks cf same
      by (auto simp: pstep_def split: expect.splits if_splits list.splits frame.splits)
  qed
qed

lemma run_in_object: "in_object st \<Longrightarrow> run st ts = Some st' \<Longrightarrow> in_object st'"
  by (induction ts arbitrary: st) (auto split: option.splits dest: pstep_in_object)

lemma JSON_parse_brace_object:
  assumes "JSON_parse (CHR ''{'' # cs) = Some v"
  shows "\<exists>ms. v = Obj ms"
proof -
  from assms obtain ts where ts: "lex Idle [] (CHR ''{'' # cs) = Some ts"
    and r: "run (EValue, []) ts = Some (EDone v, [])"
    by (auto simp: JSON_parse_def split: option.splits prod.splits expect.splits list.splits)
  have "lex Idle [LBrace] cs = Some ts"
    using ts by (simp add: json_ws_def word_char_def punctuation_def)
  from lex_keeps_first [OF this] obtain ts' where ts': "ts = LBrace # ts'"
    by (cases ts) auto
  have "run (EKeyOrClose, [ObjFrame [] None]) ts' = Some (EDone v, [])"
    using r ts' by (simp add: pstep_def value_start_def)
  moreover have "in_object (EKeyOrClose, [ObjFrame [] None])"
    by (simp add: in_object_def)
  ultimately have "in_object (EDone v, [])"
    by (rule run_in_object [rotated])
  then show ?thesis
    by (simp add: in_object_def)
qed

lemma match_braces_starts_with_brace:
  "match_braces text = Some jsonStr \<Longrightarrow> \<exists>cs. jsonStr = CHR ''{'' # cs"
  by (auto simp: match_braces_def Let_def split: if_splits)

lemma fallback_line_no_key:
  assumes "\<forall>k \<in> {''title:'', ''author:'', ''isbn:'', ''publisher:'', ''year:'', ''category:''}.
             \<not> includes_str (toLowerCase line) k"
  shows "fallback_line b line = b"
  using assms by (simp add: fallback_line_def)

lemma foldl_fixed: "(\<forall>x \<in> set xs. f b x = b) \<Longrightarrow> foldl f b xs = b"
  by (induction xs) simp_all

lemma fallbackTextParsing_no_key:
  assumes "\<forall>line \<in> set (split_on CHR 0x0A text).
             \<forall>k \<in> {''title:'', ''author:'', ''isbn:'', ''publisher:'', ''year:'', ''category:''}.
               \<not> includes_str (toLowerCase line) k"
  shows "fallbackTextParsing text = placeholder"
  unfolding fallbackTextParsing_def
  by (rule foldl_fixed) (use assms in \<open>auto intro!: fallback_line_no_key\<close>)

text \<open>
  C8. For a text in which the span from the first \<open>{\<close> to the last \<open>}\<close> is missing
  or is not JSON, and in which no line contains \<open>title:\<close>, \<open>author:\<close>, \<open>isbn:\<close>,
  \<open>publisher:\<close>, \<open>year:\<close> or \<open>category:\<close> in any case of letters,
  \<open>parseGeminiResponse\<close> answers the fixed record: every extracted field \<open>null\<close>,
  confidence 50, source \<open>gemini_ai\<close>. The function is total on texts: it has no
  raising branch.
\<close>

theorem parseGeminiResponse_placeholder:
  assumes "case match_braces text of None \<Rightarrow> True | Some jsonStr \<Rightarrow> JSON_parse jsonStr = None"
    and "\<forall>line \<in> set (split_on CHR 0x0A text).
             \<forall>k \<in> {''title:'', ''author:'', ''isbn:'', ''publisher:'', ''year:'', ''category:''}.
               \<not> includes_str (toLowerCase line) k"
  shows "parseGeminiResponse text =
           \<lparr>title = Prim Null, author = Prim Null, isbn = Prim Null, publisher = Prim Null,
            year = Prim Null, description = Prim Null, category = Prim Null,
            confidence = Prim (Number (Fin 50)), source = Prim (Str ''gemini_ai'')\<rparr>"
proof -
  have "parseGeminiResponse text = fallbackTextParsing text"
    using assms(1) by (auto simp: parseGeminiResponse_def split: option.splits)
  also have "\<dots> = placeholder"
    using assms(2) by (rule fallbackTextParsing_no_key)
  finally show ?thesis
    by (simp add: placeholder_def)
qed

theorem parseGeminiResponse_placeholder_witness:
  "parseGeminiResponse ''I cannot read this cover.'' =
           \<lparr>title = Prim Null, author = Prim Null, isbn = Prim Null, publisher = Prim Null,
            year = Prim Null, description = Prim Null, category = Prim Null,
            confidence = Prim (Number (Fin 50)), source = Prim (Str ''gemini_ai'')\<rparr>
   \<and> parseGeminiResponse ''The cover shows {nothing} legible'' =
           \<lparr>title = Prim Null, author = Prim Null, isbn = Prim Null, publisher = Prim Null,
            year = Prim Null, description = Prim Null, category = Prim Null,
            confidence = Prim (Number (Fin 50)), source = Prim (Str ''gemini_ai'')\<rparr>"
proof -
  have a1: "case match_braces ''I cannot read this cover.'' of
              None \<Rightarrow> True | Some jsonStr \<Rightarrow> JSON_parse jsonStr = None"
    by code_simp
  have a2: "\<forall>line \<in> set (split_on CHR 0x0A ''I cannot read this cover.'').
             \<forall>k \<in> {''title:'', ''author:'', ''isbn:'', ''publisher:'', ''year:'', ''category:''}.
               \<not> includes_str (toLowerCase line) k"
    by code_simp
  have b1: "case match_braces ''The cover shows {nothing} legible'' of
              None \<Rightarrow> True | Some jsonStr \<Rightarrow> JSON_parse jsonStr = None"
    by code_simp
  have b2: "\<forall>line \<in> set (split_on CHR 0x0A ''The cover shows {nothing} legible'').
             \<forall>k \<in> {''title:'', ''author:'', ''isbn:'', ''publisher:'', ''year:'', ''category:''}.
               \<not> includes_str (toLowerCase line) k"
    by code_simp
  show ?thesis
    using parseGeminiResponse_placeholder [OF a1 a2] parseGeminiResponse_placeholder [OF b1 b2]
    by simp
qed





end
